theory Spec2Isabelle
  imports Main "HOL-Library.Sublist"
begin

section \<open>Python values and builtins used by \<open>services/swap.py\<close>\<close>

text \<open>
  The module \<open>services/swap.py\<close> is sequential glue around two collaborators: the
  aggregator's HTTP client and a blockchain helper. The embedding keeps the code's own
  structure. Every \<open>raise\<close> is a value \<open>Inl e\<close> of a sum type, every call of a
  collaborator is recorded in a trace of events (with the source line of its call
  site), and the collaborators themselves are parameters: a record of functions that
  may answer differently depending on the calls made so far. Logging
  (\<open>logger.info\<close>, \<open>logger.error\<close>, \<open>print\<close>) has no effect on results and is left out.
\<close>

datatype py_exn =
    KeyError string
  | IndexError
  | TypeError
  | ValueError string
  | OverflowError
  | Raised string

datatype json =
    JNull
  | JBool bool
  | JInt int
  | JStr string
  | JList "json list"
  | JDict "(string \<times> json) list"

text \<open>Sequencing of steps that may raise: the first exception wins.\<close>

definition py_bind :: "py_exn + 'a \<Rightarrow> ('a \<Rightarrow> py_exn + 'b) \<Rightarrow> py_exn + 'b" where
  "py_bind r k = (case r of Inl e \<Rightarrow> Inl e | Inr v \<Rightarrow> k v)"

text \<open>\<open>d[key]\<close> on a Python dict held as a map (the configuration dictionaries).\<close>

definition py_dict_getitem :: "(string \<rightharpoonup> 'v) \<Rightarrow> string \<Rightarrow> py_exn + 'v" where
  "py_dict_getitem d k = (case d k of None \<Rightarrow> Inl (KeyError k) | Some v \<Rightarrow> Inr v)"

text \<open>
  \<open>v[key]\<close> with a string key on a decoded JSON value: a dict looks the key up, a list
  or a string refuses a string index, anything else is not subscriptable.
\<close>

fun py_getitem :: "json \<Rightarrow> string \<Rightarrow> py_exn + json" where
  "py_getitem (JDict kvs) k =
     (case map_of kvs k of None \<Rightarrow> Inl (KeyError k) | Some v \<Rightarrow> Inr v)"
| "py_getitem _ k = Inl TypeError"

text \<open>
  \<open>v[0]\<close> on a decoded JSON value: the first element of a list, the first character of
  a string, \<open>IndexError\<close> when either is empty; a JSON dict has string keys only, so
  \<open>0\<close> is never one of them.
\<close>

fun py_getitem_0 :: "json \<Rightarrow> py_exn + json" where
  "py_getitem_0 (JList xs) = (case xs of [] \<Rightarrow> Inl IndexError | x # _ \<Rightarrow> Inr x)"
| "py_getitem_0 (JStr s) = (case s of [] \<Rightarrow> Inl IndexError | c # _ \<Rightarrow> Inr (JStr [c]))"
| "py_getitem_0 (JDict kvs) = Inl (KeyError ''0'')"
| "py_getitem_0 _ = Inl TypeError"

subsection \<open>\<open>str.lower\<close>, \<open>int(str)\<close>, \<open>str(int)\<close>\<close>

text \<open>
  Strings are lists of ASCII characters. \<open>str.lower\<close> maps \<open>A\<close>..\<open>Z\<close> to \<open>a\<close>..\<open>z\<close>; no
  character outside ASCII lowers to \<open>0\<close>, \<open>x\<close> or \<open>e\<close>, so the comparison with the native
  token address is exact on ASCII.
\<close>

definition lower_char :: "char \<Rightarrow> char" where
  "lower_char c =
     (case map_of (zip ''ABCDEFGHIJKLMNOPQRSTUVWXYZ'' ''abcdefghijklmnopqrstuvwxyz'') c of
        None \<Rightarrow> c | Some l \<Rightarrow> l)"

definition lower :: "string \<Rightarrow> string" where
  "lower s = map lower_char s"

definition NATIVE_TOKEN_ADDRESS :: string where
  "NATIVE_TOKEN_ADDRESS = ''0xeeeeeeeeeeeeeeeeeeeeeeeeeeeeeeeeeeeeeeee''"

definition is_native :: "string \<Rightarrow> bool" where
  "is_native token_address = (lower token_address = NATIVE_TOKEN_ADDRESS)"

definition digit_val :: "char \<Rightarrow> nat option" where
  "digit_val c = map_of (zip ''0123456789'' [0, 1, 2, 3, 4, 5, 6, 7, 8, 9]) c"

definition is_space :: "char \<Rightarrow> bool" where
  "is_space c = (c \<in> set [CHR '' '', CHR 0x09, CHR 0x0A, CHR 0x0B, CHR 0x0C, CHR 0x0D])"

text \<open>
  The digits of an integer literal after its sign: a digit first, then digits, each
  optionally preceded by one underscore.
\<close>

fun after_digit :: "nat \<Rightarrow> string \<Rightarrow> nat option" where
  "after_digit acc [] = Some acc"
| "after_digit acc [c] =
     (case digit_val c of None \<Rightarrow> None | Some d \<Rightarrow> Some (10 * acc + d))"
| "after_digit acc (c # c' # cs) =
     (if c = CHR ''_''
      then (case digit_val c' of None \<Rightarrow> None | Some d \<Rightarrow> after_digit (10 * acc + d) cs)
      else (case digit_val c of None \<Rightarrow> None | Some d \<Rightarrow> after_digit (10 * acc + d) (c' # cs)))"

definition digits :: "string \<Rightarrow> nat option" where
  "digits s =
     (case s of [] \<Rightarrow> None
      | c # cs \<Rightarrow> (case digit_val c of None \<Rightarrow> None | Some d \<Rightarrow> after_digit d cs))"

definition invalid_literal :: py_exn where
  "invalid_literal = ValueError ''invalid literal for int() with base 10''"

text \<open>
  \<open>int(s)\<close> for a string: surrounding whitespace is stripped, one sign is allowed, the
  rest is a decimal literal. (The interpreter's limit on the number of digits, and
  digits and whitespace outside ASCII, are outside the model.)
\<close>

definition py_int_str :: "string \<Rightarrow> py_exn + int" where
  "py_int_str s =
     (let t = rev (dropWhile is_space (rev (dropWhile is_space s))) in
      case t of
        [] \<Rightarrow> Inl invalid_literal
      | c # cs \<Rightarrow>
          if c = CHR ''-'' then
            (case digits cs of None \<Rightarrow> Inl invalid_literal | Some n \<Rightarrow> Inr (- int n))
          else if c = CHR ''+'' then
            (case digits cs of None \<Rightarrow> Inl invalid_literal | Some n \<Rightarrow> Inr (int n))
          else
            (case digits t of None \<Rightarrow> Inl invalid_literal | Some n \<Rightarrow> Inr (int n)))"

text \<open>\<open>int(v)\<close> for a decoded JSON value.\<close>

fun py_int :: "json \<Rightarrow> py_exn + int" where
  "py_int (JStr s) = py_int_str s"
| "py_int (JInt n) = Inr n"
| "py_int (JBool b) = Inr (if b then 1 else 0)"
| "py_int _ = Inl TypeError"

fun str_nat :: "nat \<Rightarrow> string" where
  "str_nat n =
     (if n < 10 then [''0123456789'' ! n]
      else str_nat (n div 10) @ [''0123456789'' ! (n mod 10)])"

definition py_str_int :: "int \<Rightarrow> string" where
  "py_str_int i = (if i < 0 then CHR ''-'' # str_nat (nat (- i)) else str_nat (nat i))"

subsection \<open>\<open>int(x * 1.5)\<close>\<close>

text \<open>
  The padding \<open>int(x * 1.5)\<close> goes through double-precision floats. The integer \<open>x\<close> is
  converted to the nearest double (53 significant bits, ties to even; \<open>OverflowError\<close>
  from \<open>2 ^ 1024\<close> on), the product with \<open>1.5\<close> is rounded to a double again (an
  overflow gives infinity, which \<open>int\<close> refuses with \<open>OverflowError\<close>), and \<open>int\<close>
  truncates towards zero. All values involved are multiples of one half, so the model
  needs integers only.
\<close>

fun bit_length :: "nat \<Rightarrow> nat" where
  "bit_length n = (if n = 0 then 0 else Suc (bit_length (n div 2)))"

text \<open>\<open>m / 2 ^ s\<close> rounded to the nearest integer, ties to the even one.\<close>

definition round_half_even :: "nat \<Rightarrow> nat \<Rightarrow> nat" where
  "round_half_even m s =
     (let q = m div 2 ^ s; r = m mod 2 ^ s in
      if 2 ^ s < 2 * r \<or> (2 * r = 2 ^ s \<and> odd q) then q + 1 else q)"

text \<open>The nearest number with at most 53 significant bits.\<close>

definition round53 :: "nat \<Rightarrow> nat" where
  "round53 m =
     (let n = bit_length m in
      if n \<le> 53 then m else round_half_even m (n - 53) * 2 ^ (n - 53))"

text \<open>\<open>float(x)\<close> for an integer: the double's value, itself an integer.\<close>

definition py_float :: "int \<Rightarrow> py_exn + int" where
  "py_float x =
     (let v = round53 (nat \<bar>x\<bar>) in
      if 2 ^ 1024 \<le> v then Inl OverflowError else Inr (sgn x * int v))"

definition py_int_times_1_5 :: "int \<Rightarrow> py_exn + int" where
  "py_int_times_1_5 x =
     py_bind (py_float x) (\<lambda>y.
       let halves = round53 (nat (3 * \<bar>y\<bar>)) in
       if 2 ^ 1025 \<le> halves then Inl OverflowError
       else Inr (sgn y * int (halves div 2)))"

section \<open>Configuration, collaborators and the trace of their calls\<close>

text \<open>
  \<open>config/settings.py\<close> is not part of the sources; its two dictionaries are
  parameters. \<open>WALLET_CONFIG\<close> maps a wallet name to a dictionary with the keys
  \<open>address\<close> and \<open>private_key\<close>, \<open>NATIVE_TOKENS\<close> maps a chain id to a dictionary with
  the key \<open>decimals\<close>.
\<close>

record config =
  WALLET_CONFIG :: "string \<rightharpoonup> (string \<rightharpoonup> string)"
  NATIVE_TOKENS :: "string \<rightharpoonup> (string \<rightharpoonup> int)"

text \<open>The object \<open>Web3Helper.get_instance\<close> returns; the code reads its \<open>chain_id\<close>.\<close>

record web3_helper =
  helper_chain_id :: string

text \<open>The transaction dictionary handed to \<open>send_transaction\<close>.\<close>

record transaction =
  tx_nonce :: int
  tx_to :: json
  tx_gasPrice :: int
  tx_gas :: int
  tx_data :: json
  tx_value :: int
  tx_chainId :: int

datatype call =
    GetInstance string
  | GetApproveTransaction "string \<rightharpoonup> json"
  | GetAllowance string string json
  | GasPrice
  | GetTransactionCount string
  | SendTransaction transaction string
  | WaitForTransactionReceipt string
  | GetTokenDecimals string
  | ParseTokenAmount string int
  | GetSwap "string \<rightharpoonup> json"

text \<open>
  One event per executed collaborator call: the line of \<open>services/swap.py\<close> the call
  stands on, the call with its arguments, and the exception it raised, if any.
\<close>

datatype event = Event (site: nat) (call: call) (raised: "py_exn option")

text \<open>
  The collaborators (\<open>providers/okx/client.py\<close> and \<open>utils/web3_helper.py\<close>, neither
  among the sources). Each answer may depend on the events so far, which covers a
  node whose nonce, allowance or gas price changes between calls.
\<close>

record world =
  get_instance :: "event list \<Rightarrow> string \<Rightarrow> py_exn + web3_helper"
  get_approve_transaction :: "event list \<Rightarrow> (string \<rightharpoonup> json) \<Rightarrow> py_exn + json"
  get_swap :: "event list \<Rightarrow> (string \<rightharpoonup> json) \<Rightarrow> py_exn + json"
  get_allowance :: "event list \<Rightarrow> web3_helper \<Rightarrow> string \<Rightarrow> string \<Rightarrow> json \<Rightarrow> py_exn + int"
  gas_price :: "event list \<Rightarrow> web3_helper \<Rightarrow> py_exn + int"
  get_transaction_count :: "event list \<Rightarrow> web3_helper \<Rightarrow> string \<Rightarrow> py_exn + int"
  send_transaction :: "event list \<Rightarrow> web3_helper \<Rightarrow> transaction \<Rightarrow> string \<Rightarrow> py_exn + string"
  wait_for_transaction_receipt :: "event list \<Rightarrow> web3_helper \<Rightarrow> string \<Rightarrow> py_exn + unit"
  get_token_decimals :: "event list \<Rightarrow> web3_helper \<Rightarrow> string \<Rightarrow> py_exn + int"
  parse_token_amount :: "event list \<Rightarrow> web3_helper \<Rightarrow> string \<Rightarrow> int \<Rightarrow> py_exn + int"

text \<open>
  A computation takes the events so far and returns its result, or the exception it
  raised, with the events extended by the calls it made.
\<close>

type_synonym 'a io = "event list \<Rightarrow> (py_exn + 'a) \<times> event list"

definition io_return :: "'a \<Rightarrow> 'a io" where
  "io_return v = (\<lambda>tr. (Inr v, tr))"

definition io_raise :: "py_exn \<Rightarrow> 'a io" where
  "io_raise e = (\<lambda>tr. (Inl e, tr))"

text \<open>A local step: it may raise, it calls no collaborator.\<close>

definition io_lift :: "py_exn + 'a \<Rightarrow> 'a io" where
  "io_lift r = (\<lambda>tr. (r, tr))"

definition io_bind :: "'a io \<Rightarrow> ('a \<Rightarrow> 'b io) \<Rightarrow> 'b io" where
  "io_bind m k =
     (\<lambda>tr. case m tr of (Inl e, tr') \<Rightarrow> (Inl e, tr') | (Inr v, tr') \<Rightarrow> k v tr')"

text \<open>A collaborator call on line \<open>s\<close>: the answer is taken, the event recorded.\<close>

definition io_call :: "nat \<Rightarrow> call \<Rightarrow> (event list \<Rightarrow> py_exn + 'a) \<Rightarrow> 'a io" where
  "io_call s c f =
     (\<lambda>tr. case f tr of
             Inl e \<Rightarrow> (Inl e, tr @ [Event s c (Some e)])
           | Inr v \<Rightarrow> (Inr v, tr @ [Event s c None]))"

text \<open>\<open>try: m except Exception as e: h(e)\<close>.\<close>

definition io_except :: "'a io \<Rightarrow> (py_exn \<Rightarrow> 'a io) \<Rightarrow> 'a io" where
  "io_except m h =
     (\<lambda>tr. case m tr of (Inl e, tr') \<Rightarrow> h e tr' | (Inr v, tr') \<Rightarrow> (Inr v, tr'))"

section \<open>\<open>SwapService\<close>\<close>

record swap_service =
  wallet_config :: "string \<rightharpoonup> string"

definition SwapService_init :: "config \<Rightarrow> py_exn + swap_service" where
  "SwapService_init cfg =
     py_bind (py_dict_getitem (WALLET_CONFIG cfg) ''default'') (\<lambda>w.
       Inr \<lparr>wallet_config = w\<rparr>)"

definition check_and_approve ::
  "world \<Rightarrow> swap_service \<Rightarrow> string \<Rightarrow> string \<Rightarrow> string \<Rightarrow> string \<Rightarrow> string option io"
where
  "check_and_approve w self chain_id token_address owner_address amount =
     io_except
       (io_bind (io_call 19 (GetInstance chain_id) (\<lambda>tr. get_instance w tr chain_id))
          (\<lambda>helper.
        let request = [''chainId'' \<mapsto> JStr chain_id,
                       ''tokenContractAddress'' \<mapsto> JStr token_address,
                       ''approveAmount'' \<mapsto> JStr amount] in
        io_bind (io_call 22 (GetApproveTransaction request)
                   (\<lambda>tr. get_approve_transaction w tr request))
          (\<lambda>approve_data.
        io_bind (io_lift (py_bind (py_bind (py_getitem approve_data ''data'') py_getitem_0)
                            (\<lambda>d. py_getitem d ''spenderAddress'')))
          (\<lambda>spender_address.
        io_bind (io_call 31 (GetAllowance token_address owner_address spender_address)
                   (\<lambda>tr. get_allowance w tr helper token_address owner_address
                            spender_address))
          (\<lambda>current_allowance.
        io_bind (io_lift (py_int_str amount))
          (\<lambda>required.
        if current_allowance < required then
          io_bind (io_lift (py_bind (py_getitem approve_data ''data'') py_getitem_0))
            (\<lambda>tx_data.
          io_bind (io_call 42 GasPrice (\<lambda>tr. gas_price w tr helper))
            (\<lambda>price.
          io_bind (io_call 43 (GetTransactionCount owner_address)
                     (\<lambda>tr. get_transaction_count w tr helper owner_address))
            (\<lambda>nonce.
          io_bind (io_lift (py_int_times_1_5 price))
            (\<lambda>gasPrice.
          io_bind (io_lift (py_bind (py_bind (py_getitem tx_data ''gasLimit'') py_int)
                              py_int_times_1_5))
            (\<lambda>gas.
          io_bind (io_lift (py_getitem tx_data ''data''))
            (\<lambda>calldata.
          io_bind (io_lift (py_int_str chain_id))
            (\<lambda>chain.
          let transaction = \<lparr>tx_nonce = nonce, tx_to = JStr token_address,
                               tx_gasPrice = gasPrice, tx_gas = gas, tx_data = calldata,
                               tx_value = 0, tx_chainId = chain\<rparr> in
          io_bind (io_lift (py_dict_getitem (wallet_config self) ''private_key''))
            (\<lambda>private_key.
          io_bind (io_call 55 (SendTransaction transaction private_key)
                     (\<lambda>tr. send_transaction w tr helper transaction private_key))
            (\<lambda>tx_hash.
          io_return (Some tx_hash))))))))))
        else io_return None))))))
       (\<lambda>e. io_raise e)"

definition get_amount_in_wei ::
  "world \<Rightarrow> config \<Rightarrow> web3_helper \<Rightarrow> string \<Rightarrow> string \<Rightarrow> string io"
where
  "get_amount_in_wei w cfg helper token_address amount =
     io_except
       (let chain_id = helper_chain_id helper in
        io_bind
          (if lower token_address = NATIVE_TOKEN_ADDRESS then
             if chain_id \<notin> dom (NATIVE_TOKENS cfg)
             then io_raise (ValueError (''Unsupported chain ID: '' @ chain_id))
             else io_lift (py_bind (py_dict_getitem (NATIVE_TOKENS cfg) chain_id)
                             (\<lambda>entry. py_dict_getitem entry ''decimals''))
           else io_call 84 (GetTokenDecimals token_address)
                  (\<lambda>tr. get_token_decimals w tr helper token_address))
          (\<lambda>decimals.
        io_bind (io_call 86 (ParseTokenAmount amount decimals)
                   (\<lambda>tr. parse_token_amount w tr helper amount decimals))
          (\<lambda>parsed.
        io_return (py_str_int parsed))))
       (\<lambda>e. io_raise e)"

text \<open>A string argument declared \<open>Optional[str]\<close> is true when it is a non-empty string.\<close>

definition truthy :: "string option \<Rightarrow> bool" where
  "truthy v = (case v of None \<Rightarrow> False | Some s \<Rightarrow> s \<noteq> [])"

definition create_swap_transaction ::
  "world \<Rightarrow> config \<Rightarrow> string \<Rightarrow> string \<Rightarrow> string \<Rightarrow> string \<Rightarrow> string \<Rightarrow> string option \<Rightarrow>
   string \<Rightarrow> (string \<rightharpoonup> json) \<Rightarrow> json io"
where
  "create_swap_transaction w cfg chain_id from_token to_token amount user_address
       recipient_address slippage kwargs =
     io_except
       (io_bind (io_call 96 (GetInstance chain_id) (\<lambda>tr. get_instance w tr chain_id))
          (\<lambda>helper.
        io_bind (get_amount_in_wei w cfg helper from_token amount)
          (\<lambda>raw_amount.
        let params = [''chainId'' \<mapsto> JStr chain_id,
                      ''fromTokenAddress'' \<mapsto> JStr from_token,
                      ''toTokenAddress'' \<mapsto> JStr to_token,
                      ''amount'' \<mapsto> JStr raw_amount,
                      ''userWalletAddress'' \<mapsto> JStr user_address,
                      ''slippage'' \<mapsto> JStr slippage] ++ kwargs;
            params = (if truthy recipient_address
                      then params(''swapReceiverAddress'' \<mapsto> JStr (the recipient_address))
                      else params) in
        io_bind (io_call 115 (GetSwap params) (\<lambda>tr. get_swap w tr params))
          (\<lambda>swap_data.
        io_return swap_data))))
       (\<lambda>e. io_raise e)"

text \<open>
  \<open>execute_swap\<close> passes \<open>user_address\<close> by keyword together with \<open>**kwargs\<close>: extra
  keyword arguments that name \<open>user_address\<close> again make the call of
  \<open>create_swap_transaction\<close> a \<open>TypeError\<close>; every other parameter name of
  \<open>create_swap_transaction\<close> is a parameter of \<open>execute_swap\<close> too and cannot be in
  \<open>kwargs\<close>.
\<close>

definition execute_swap ::
  "world \<Rightarrow> config \<Rightarrow> swap_service \<Rightarrow> string \<Rightarrow> string \<Rightarrow> string \<Rightarrow> string \<Rightarrow>
   string option \<Rightarrow> string \<Rightarrow> string \<Rightarrow> (string \<rightharpoonup> json) \<Rightarrow> string io"
where
  "execute_swap w cfg self chain_id from_token to_token amount recipient_address slippage
       wallet_name kwargs =
     io_except
       (io_bind (io_lift (py_bind (py_dict_getitem (WALLET_CONFIG cfg) ''default'')
                            (\<lambda>fallback. Inr (case WALLET_CONFIG cfg wallet_name of
                                                None \<Rightarrow> fallback | Some x \<Rightarrow> x))))
          (\<lambda>wallet.
        io_bind (io_lift (py_dict_getitem wallet ''address''))
          (\<lambda>user_address.
        io_bind (io_call 132 (GetInstance chain_id) (\<lambda>tr. get_instance w tr chain_id))
          (\<lambda>helper.
        io_bind (get_amount_in_wei w cfg helper from_token amount)
          (\<lambda>raw_amount.
        io_bind
          (if lower from_token \<noteq> NATIVE_TOKEN_ADDRESS then
             io_bind (check_and_approve w self chain_id from_token user_address raw_amount)
               (\<lambda>approve_tx.
             if truthy approve_tx then
               io_call 147 (WaitForTransactionReceipt (the approve_tx))
                 (\<lambda>tr. wait_for_transaction_receipt w tr helper (the approve_tx))
             else io_return ())
           else io_return ())
          (\<lambda>_.
        io_bind
          (if ''user_address'' \<in> dom kwargs then io_raise TypeError
           else create_swap_transaction w cfg chain_id from_token to_token amount
                  user_address recipient_address slippage kwargs)
          (\<lambda>swap_data.
        io_bind (io_lift (py_bind (py_bind (py_getitem swap_data ''data'') py_getitem_0)
                            (\<lambda>d. py_getitem d ''tx'')))
          (\<lambda>tx_info.
        io_bind (io_call 165 (GetTransactionCount user_address)
                   (\<lambda>tr. get_transaction_count w tr helper user_address))
          (\<lambda>nonce.
        io_bind (io_lift (py_getitem tx_info ''to''))
          (\<lambda>target.
        io_bind (io_lift (py_bind (py_bind (py_getitem tx_info ''gasPrice'') py_int)
                            py_int_times_1_5))
          (\<lambda>gasPrice.
        io_bind (io_lift (py_bind (py_bind (py_getitem tx_info ''gas'') py_int)
                            py_int_times_1_5))
          (\<lambda>gas.
        io_bind (io_lift (py_getitem tx_info ''data''))
          (\<lambda>calldata.
        io_bind (io_lift (py_bind (py_getitem tx_info ''value'') py_int))
          (\<lambda>amount_wei.
        io_bind (io_lift (py_int_str chain_id))
          (\<lambda>chain.
        let transaction = \<lparr>tx_nonce = nonce, tx_to = target, tx_gasPrice = gasPrice,
                             tx_gas = gas, tx_data = calldata, tx_value = amount_wei,
                             tx_chainId = chain\<rparr> in
        io_bind (io_lift (py_dict_getitem wallet ''private_key''))
          (\<lambda>private_key.
        io_bind (io_call 178 (SendTransaction transaction private_key)
                   (\<lambda>tr. send_transaction w tr helper transaction private_key))
          (\<lambda>tx_hash.
        io_return tx_hash)))))))))))))))))
       (\<lambda>e. io_raise e)"

section \<open>Example configurations and collaborators\<close>

text \<open>
  Concrete inputs on which the theorems below are instantiated: a configuration with
  one wallet and one native token, an ERC20 token address, well-formed responses of
  the aggregator, and a node that answers every call. The example node's nonce is the
  number of calls made so far, so it does depend on the history.
\<close>

definition ex_wallet :: "string \<rightharpoonup> string" where
  "ex_wallet = [''address'' \<mapsto> ''0xowner'', ''private_key'' \<mapsto> ''secret'']"

definition ex_config :: config where
  "ex_config = \<lparr>WALLET_CONFIG = [''default'' \<mapsto> ex_wallet],
                 NATIVE_TOKENS = [''1'' \<mapsto> [''decimals'' \<mapsto> 18]]\<rparr>"

definition ex_service :: swap_service where
  "ex_service = \<lparr>wallet_config = ex_wallet\<rparr>"

definition ex_token :: string where
  "ex_token = ''0xdAC17F958D2ee523a2206206994597C13D831ec7''"

definition ex_native :: string where
  "ex_native = ''0xEeeeeEeeeEeEeeEeEeEeeEEEeeeeEeeeeeeeEEeE''"

definition ex_approve_response :: json where
  "ex_approve_response =
     JDict [(''code'', JStr ''0''),
            (''data'', JList [JDict [(''data'', JStr ''0x095ea7b3''),
                                     (''spenderAddress'', JStr ''0xspender''),
                                     (''gasLimit'', JStr ''70000'')]])]"

definition ex_swap_response :: json where
  "ex_swap_response =
     JDict [(''code'', JStr ''0''),
            (''data'', JList [JDict [(''tx'', JDict [(''to'', JStr ''0xrouter''),
                                                     (''gasPrice'', JStr ''20''),
                                                     (''gas'', JStr ''100000''),
                                                     (''data'', JStr ''0xabcdef''),
                                                     (''value'', JStr ''0'')])]])]"

text \<open>
  A node with the given allowance and gas price that returns the given hash from
  \<open>send_transaction\<close>.
\<close>

definition ex_world :: "int \<Rightarrow> int \<Rightarrow> string \<Rightarrow> world" where
  "ex_world allowance price tx_hash =
     \<lparr>get_instance = (\<lambda>tr chain_id. Inr \<lparr>helper_chain_id = chain_id\<rparr>),
      get_approve_transaction = (\<lambda>tr request. Inr ex_approve_response),
      get_swap = (\<lambda>tr params. Inr ex_swap_response),
      get_allowance = (\<lambda>tr helper token ownr spender. Inr allowance),
      gas_price = (\<lambda>tr helper. Inr price),
      get_transaction_count = (\<lambda>tr helper address. Inr (int (length tr))),
      send_transaction = (\<lambda>tr helper tx key. Inr tx_hash),
      wait_for_transaction_receipt = (\<lambda>tr helper h. Inr ()),
      get_token_decimals = (\<lambda>tr helper token. Inr 6),
      parse_token_amount = (\<lambda>tr helper amount decimals. Inr 1500000)\<rparr>"

text \<open>The approval request, transaction and trace of the example node.\<close>

definition ex_approve_request :: "string \<rightharpoonup> json" where
  "ex_approve_request = [''chainId'' \<mapsto> JStr ''1'',
                         ''tokenContractAddress'' \<mapsto> JStr ex_token,
                         ''approveAmount'' \<mapsto> JStr ''1500000'']"

definition ex_approval_tx :: transaction where
  "ex_approval_tx = \<lparr>tx_nonce = 4, tx_to = JStr ex_token, tx_gasPrice = 30,
                      tx_gas = 105000, tx_data = JStr ''0x095ea7b3'', tx_value = 0,
                      tx_chainId = 1\<rparr>"

definition ex_approval_trace :: "event list" where
  "ex_approval_trace =
     [Event 19 (GetInstance ''1'') None,
      Event 22 (GetApproveTransaction ex_approve_request) None,
      Event 31 (GetAllowance ex_token ''0xowner'' (JStr ''0xspender'')) None,
      Event 42 GasPrice None,
      Event 43 (GetTransactionCount ''0xowner'') None,
      Event 55 (SendTransaction ex_approval_tx ''secret'') None]"

text \<open>Inputs for the amount conversion and the swap request.\<close>

definition ex_helper :: web3_helper where
  "ex_helper = \<lparr>helper_chain_id = ''1''\<rparr>"

definition ex_kwargs :: "string \<rightharpoonup> json" where
  "ex_kwargs = [''swapReceiverAddress'' \<mapsto> JStr ''0xthird'']"

definition ex_swap_params :: "string \<rightharpoonup> json" where
  "ex_swap_params =
     [''chainId'' \<mapsto> JStr ''1'',
      ''fromTokenAddress'' \<mapsto> JStr ex_native,
      ''toTokenAddress'' \<mapsto> JStr ex_token,
      ''amount'' \<mapsto> JStr ''1500000'',
      ''userWalletAddress'' \<mapsto> JStr ''0xowner'',
      ''slippage'' \<mapsto> JStr ''0.03''] ++ ex_kwargs"

definition ex_recipient_params :: "string \<rightharpoonup> json" where
  "ex_recipient_params =
     ([''chainId'' \<mapsto> JStr ''1'',
       ''fromTokenAddress'' \<mapsto> JStr ex_native,
       ''toTokenAddress'' \<mapsto> JStr ex_token,
       ''amount'' \<mapsto> JStr ''1500000'',
       ''userWalletAddress'' \<mapsto> JStr ''0xowner'',
       ''slippage'' \<mapsto> JStr ''0.03''] ++ Map.empty)
       (''swapReceiverAddress'' \<mapsto> JStr ''0xfriend'')"

section \<open>Properties of runs\<close>

text \<open>
  Events are clean when none of them records an exception. A run ends well when the
  events it added are clean, or when it raised and the exception is the one recorded
  by the last event it added, all events before being clean: the failed call is the
  last call.
\<close>

definition clean :: "event list \<Rightarrow> bool" where
  "clean evs = (\<forall>ev \<in> set evs. raised ev = None)"

definition ends_well :: "py_exn + 'a \<Rightarrow> event list \<Rightarrow> bool" where
  "ends_well r new =
     (case r of
        Inr v \<Rightarrow> clean new
      | Inl e \<Rightarrow> clean new \<or> (\<exists>pre ev. new = pre @ [ev] \<and> clean pre \<and> raised ev = Some e))"

text \<open>
  A computation runs within a list of call sites when every run of it only adds
  events, ends well, and the sites of the events it adds are, in this order, among the
  listed ones: each listed occurrence is used at most once.
\<close>

definition runs_within :: "nat list \<Rightarrow> 'a io \<Rightarrow> bool" where
  "runs_within sites m =
     (\<forall>tr r tr'. m tr = (r, tr') \<longrightarrow>
        (\<exists>new. tr' = tr @ new \<and> ends_well r new \<and> subseq (map site new) sites))"

text \<open>
  Runs of \<open>execute_swap\<close> on the example node: an ERC20 token whose allowance
  suffices, the same token with no allowance, and the native token.
\<close>

definition ex_erc20_params :: "string \<rightharpoonup> json" where
  "ex_erc20_params =
     [''chainId'' \<mapsto> JStr ''1'',
      ''fromTokenAddress'' \<mapsto> JStr ex_token,
      ''toTokenAddress'' \<mapsto> JStr ex_native,
      ''amount'' \<mapsto> JStr ''1500000'',
      ''userWalletAddress'' \<mapsto> JStr ''0xowner'',
      ''slippage'' \<mapsto> JStr ''0.03''] ++ Map.empty"

definition ex_swap_tx :: "int \<Rightarrow> transaction" where
  "ex_swap_tx nonce = \<lparr>tx_nonce = nonce, tx_to = JStr ''0xrouter'', tx_gasPrice = 30,
                        tx_gas = 150000, tx_data = JStr ''0xabcdef'', tx_value = 0,
                        tx_chainId = 1\<rparr>"

definition ex_quote_and_send :: "string \<Rightarrow> int \<Rightarrow> (string \<rightharpoonup> json) \<Rightarrow> int \<Rightarrow> event list" where
  "ex_quote_and_send token decimals params nonce =
     [Event 96 (GetInstance ''1'') None] @
     (if is_native token then [] else [Event 84 (GetTokenDecimals token) None]) @
     [Event 86 (ParseTokenAmount ''1.5'' decimals) None,
      Event 115 (GetSwap params) None,
      Event 165 (GetTransactionCount ''0xowner'') None,
      Event 178 (SendTransaction (ex_swap_tx nonce) ''secret'') None]"

definition ex_erc20_trace :: "event list" where
  "ex_erc20_trace =
     [Event 132 (GetInstance ''1'') None,
      Event 84 (GetTokenDecimals ex_token) None,
      Event 86 (ParseTokenAmount ''1.5'' 6) None,
      Event 19 (GetInstance ''1'') None,
      Event 22 (GetApproveTransaction ex_approve_request) None,
      Event 31 (GetAllowance ex_token ''0xowner'' (JStr ''0xspender'')) None] @
     ex_quote_and_send ex_token 6 ex_erc20_params 10"

definition ex_erc20_approval_trace :: "event list" where
  "ex_erc20_approval_trace =
     [Event 132 (GetInstance ''1'') None,
      Event 84 (GetTokenDecimals ex_token) None,
      Event 86 (ParseTokenAmount ''1.5'' 6) None,
      Event 19 (GetInstance ''1'') None,
      Event 22 (GetApproveTransaction ex_approve_request) None,
      Event 31 (GetAllowance ex_token ''0xowner'' (JStr ''0xspender'')) None,
      Event 42 GasPrice None,
      Event 43 (GetTransactionCount ''0xowner'') None,
      Event 55 (SendTransaction (ex_approval_tx\<lparr>tx_nonce := 7\<rparr>) ''secret'') None,
      Event 147 (WaitForTransactionReceipt ''0xa1'') None] @
     ex_quote_and_send ex_token 6 ex_erc20_params 14"

definition ex_native_trace :: "event list" where
  "ex_native_trace =
     [Event 132 (GetInstance ''1'') None,
      Event 86 (ParseTokenAmount ''1.5'' 18) None] @
     ex_quote_and_send ex_native 18 ex_swap_params 5"

text \<open>A node on which the aggregator's swap endpoint fails.\<close>

definition ex_failing_world :: world where
  "ex_failing_world =
     (ex_world 0 20 ''0xa1'')\<lparr>get_swap := (\<lambda>tr params. Inl (Raised ''HTTP 500''))\<rparr>"

definition ex_failing_trace :: "event list" where
  "ex_failing_trace =
     [Event 132 (GetInstance ''1'') None,
      Event 86 (ParseTokenAmount ''1.5'' 18) None,
      Event 96 (GetInstance ''1'') None,
      Event 86 (ParseTokenAmount ''1.5'' 18) None,
      Event 115 (GetSwap ex_swap_params) (Some (Raised ''HTTP 500''))]"

section \<open>The calls of a successful swap\<close>

text \<open>
  The calls the functions make when nothing raises, in the order of the source: the
  amount conversion (lines 84 and 86), the allowance check (lines 19 to 31), the
  approval (lines 42 to 55), and the quote with the final broadcast (lines 96 to 178).
\<close>

definition conversion_calls :: "string \<Rightarrow> string \<Rightarrow> int \<Rightarrow> event list" where
  "conversion_calls token amount decimals =
     (if is_native token then [] else [Event 84 (GetTokenDecimals token) None]) @
     [Event 86 (ParseTokenAmount amount decimals) None]"

definition allowance_calls ::
  "string \<Rightarrow> (string \<rightharpoonup> json) \<Rightarrow> string \<Rightarrow> string \<Rightarrow> json \<Rightarrow> event list" where
  "allowance_calls chain_id request token ownr spender =
     [Event 19 (GetInstance chain_id) None,
      Event 22 (GetApproveTransaction request) None,
      Event 31 (GetAllowance token ownr spender) None]"

definition approval_calls :: "string \<Rightarrow> transaction \<Rightarrow> string \<Rightarrow> event list" where
  "approval_calls ownr tx key =
     [Event 42 GasPrice None,
      Event 43 (GetTransactionCount ownr) None,
      Event 55 (SendTransaction tx key) None]"

definition quote_calls ::
  "string \<Rightarrow> string \<Rightarrow> string \<Rightarrow> int \<Rightarrow> (string \<rightharpoonup> json) \<Rightarrow> event list" where
  "quote_calls chain_id token amount decimals params =
     [Event 96 (GetInstance chain_id) None] @
     conversion_calls token amount decimals @
     [Event 115 (GetSwap params) None]"

definition broadcast_calls :: "string \<Rightarrow> transaction \<Rightarrow> string \<Rightarrow> event list" where
  "broadcast_calls ownr tx key =
     [Event 165 (GetTransactionCount ownr) None,
      Event 178 (SendTransaction tx key) None]"

text \<open>
  Calls that go over the network. \<open>Web3Helper.get_instance\<close> and
  \<open>parse_token_amount\<close> are taken to be local (a factory and a decimal conversion);
  every other collaborator call is an HTTP request to the aggregator or an RPC to the
  node.
\<close>

fun is_network :: "call \<Rightarrow> bool" where
  "is_network (GetInstance chain_id) = False"
| "is_network (ParseTokenAmount amount decimals) = False"
| "is_network c = True"

definition network_calls :: "event list \<Rightarrow> nat" where
  "network_calls evs = length (filter (\<lambda>ev. is_network (call ev)) evs)"

(*THEOREMS*)
section \<open>Basic facts\<close>

text \<open>
  The two recursions on numbers are unfolded on demand only: as rewrite rules they
  would apply to their own right-hand sides.
\<close>

declare bit_length.simps [simp del] str_nat.simps [simp del]

text \<open>An \<open>except\<close> block that only logs and re-raises changes nothing.\<close>

lemma io_except_reraise: "io_except m (\<lambda>e. io_raise e) = m"
  by (rule ext) (simp add: io_except_def io_raise_def split: prod.splits sum.splits)

lemmas io_defs = io_bind_def io_call_def io_lift_def io_return_def io_raise_def
lemmas ex_defs = ex_world_def ex_config_def ex_service_def ex_wallet_def ex_token_def ex_native_def
  ex_approve_response_def ex_swap_response_def ex_approve_request_def ex_approval_tx_def
  ex_approval_trace_def
lemmas py_defs = py_bind_def py_dict_getitem_def py_int_str_def digits_def digit_val_def is_space_def
  py_int_times_1_5_def py_float_def round53_def round_half_even_def py_str_int_def
  bit_length.simps str_nat.simps
  lower_def lower_char_def NATIVE_TOKEN_ADDRESS_def truthy_def

lemmas ex_defs2 = ex_helper_def ex_kwargs_def ex_swap_params_def ex_recipient_params_def
  ex_erc20_params_def ex_swap_tx_def ex_quote_and_send_def ex_erc20_trace_def
  ex_erc20_approval_trace_def ex_native_trace_def ex_failing_world_def ex_failing_trace_def
  is_native_def

lemma ex_approval_run:
  "check_and_approve (ex_world 0 20 ''0xa1'') ex_service ''1'' ex_token ''0xowner'' ''1500000'' []
   = (Inr (Some ''0xa1''), ex_approval_trace)"
  unfolding check_and_approve_def io_except_reraise Let_def
  by (simp add: io_defs ex_defs py_defs)

section \<open>Call sites of every run\<close>

text \<open>
  The rules below follow the structure of a computation; applied to the four functions
  they give the call sites of each, in the order of the source.
\<close>

lemma clean_simps [simp]:
  "clean []" "clean (ev # evs) = (raised ev = None \<and> clean evs)"
  "clean (xs @ ys) = (clean xs \<and> clean ys)"
  by (auto simp: clean_def)

lemma runs_within_return: "runs_within [] (io_return v)"
  by (simp add: runs_within_def io_return_def ends_well_def)

lemma runs_within_raise: "runs_within [] (io_raise e)"
  by (simp add: runs_within_def io_raise_def ends_well_def)

lemma runs_within_lift: "runs_within [] (io_lift r)"
  by (auto simp: runs_within_def io_lift_def ends_well_def split: sum.splits)

lemma runs_within_call: "runs_within [s] (io_call s c f)"
  by (auto simp: runs_within_def io_call_def ends_well_def split: sum.splits)

lemma ends_well_append:
  assumes "clean new1" and "ends_well r new2"
  shows "ends_well r (new1 @ new2)"
proof (cases r)
  case (Inl e)
  with assms(2) consider "clean new2" | pre ev where "new2 = pre @ [ev]" "clean pre" "raised ev = Some e"
    by (auto simp: ends_well_def)
  then show ?thesis
  proof cases
    case 1
    with assms(1) Inl show ?thesis by (simp add: ends_well_def)
  next
    case 2
    then have "new1 @ new2 = (new1 @ pre) @ [ev]" "clean (new1 @ pre)"
      using assms(1) by simp_all
    with 2(3) Inl show ?thesis unfolding ends_well_def by (simp only: sum.case) blast
  qed
next
  case (Inr v)
  with assms show ?thesis by (simp add: ends_well_def)
qed

lemma runs_within_bind:
  assumes m: "runs_within s1 m" and k: "\<And>x. runs_within s2 (k x)"
  shows "runs_within (s1 @ s2) (io_bind m k)"
  unfolding runs_within_def
proof (intro allI impI)
  fix tr r tr'
  assume run: "io_bind m k tr = (r, tr')"
  obtain r1 tr1 where m1: "m tr = (r1, tr1)" by (cases "m tr")
  from m m1 obtain new1 where n1: "tr1 = tr @ new1" "ends_well r1 new1" "subseq (map site new1) s1"
    unfolding runs_within_def by blast
  show "\<exists>new. tr' = tr @ new \<and> ends_well r new \<and> subseq (map site new) (s1 @ s2)"
  proof (cases r1)
    case (Inl e)
    with run m1 have "r = Inl e" "tr' = tr1" by (simp_all add: io_bind_def)
    moreover have "ends_well (Inl e :: py_exn + 'b) new1"
      using n1(2) Inl by (simp add: ends_well_def)
    moreover have "subseq (map site new1) (s1 @ s2)"
      using n1(3) by (rule list_emb_prefix)
    ultimately show ?thesis using n1(1) by blast
  next
    case (Inr x)
    with run m1 have k1: "k x tr1 = (r, tr')" by (simp add: io_bind_def)
    from k[of x] k1 obtain new2 where n2: "tr' = tr1 @ new2" "ends_well r new2" "subseq (map site new2) s2"
      unfolding runs_within_def by blast
    have c1: "clean new1" using n1(2) Inr by (simp add: ends_well_def)
    have "tr' = tr @ (new1 @ new2)" using n1(1) n2(1) by simp
    moreover have "ends_well r (new1 @ new2)" using c1 n2(2) by (rule ends_well_append)
    moreover have "subseq (map site (new1 @ new2)) (s1 @ s2)"
      using n1(3) n2(3) by (simp add: list_emb_append_mono)
    ultimately show ?thesis by blast
  qed
qed

lemma runs_within_weaken:
  assumes "runs_within s m" and "subseq s s'"
  shows "runs_within s' m"
  using assms unfolding runs_within_def by (meson subseq_order.order_trans)

lemma runs_within_if:
  assumes "runs_within s1 a" and "runs_within s2 b"
  shows "runs_within (s1 @ s2) (if c then a else b)"
proof (cases c)
  case True
  with assms(1) show ?thesis by (auto intro: runs_within_weaken list_emb_prefix)
next
  case False
  with assms(2) show ?thesis by (auto intro: runs_within_weaken list_emb_append2)
qed

lemmas runs_within_rules =
  runs_within_bind runs_within_if runs_within_call runs_within_lift runs_within_raise
  runs_within_return

lemma get_amount_in_wei_within:
  "runs_within [84, 86] (get_amount_in_wei w cfg helper token_address amount)"
  unfolding get_amount_in_wei_def io_except_reraise Let_def
  apply (rule runs_within_weaken)
   apply (rule runs_within_rules)+
  apply simp
  done

lemma check_and_approve_within:
  "runs_within [19, 22, 31, 42, 43, 55]
     (check_and_approve w self chain_id token_address owner_address amount)"
  unfolding check_and_approve_def io_except_reraise Let_def
  apply (rule runs_within_weaken)
   apply (rule runs_within_rules)+
  apply simp
  done

lemma create_swap_transaction_within:
  "runs_within [96, 84, 86, 115]
     (create_swap_transaction w cfg chain_id from_token to_token amount user_address
        recipient_address slippage kwargs)"
  unfolding create_swap_transaction_def io_except_reraise Let_def
  apply (rule runs_within_weaken)
   apply (rule runs_within_rules get_amount_in_wei_within)+
  apply simp
  done

lemma execute_swap_within:
  "runs_within [132, 84, 86, 19, 22, 31, 42, 43, 55, 147, 96, 84, 86, 115, 165, 178]
     (execute_swap w cfg self chain_id from_token to_token amount recipient_address slippage
        wallet_name kwargs)"
  unfolding execute_swap_def io_except_reraise Let_def
  apply (rule runs_within_weaken)
   apply (rule runs_within_rules get_amount_in_wei_within check_and_approve_within
            create_swap_transaction_within)+
  apply simp
  done

section \<open>Example runs of \<open>execute_swap\<close>\<close>

lemmas fun_defs = execute_swap_def create_swap_transaction_def check_and_approve_def
  get_amount_in_wei_def

lemma ex_erc20_run:
  "execute_swap (ex_world 2000000 20 ''0xa1'') ex_config ex_service ''1'' ex_token ex_native
     ''1.5'' None ''0.03'' ''default'' Map.empty []
   = (Inr ''0xa1'', ex_erc20_trace)"
  unfolding fun_defs io_except_reraise Let_def
  by (simp add: io_defs ex_defs ex_defs2 py_defs)

lemma ex_erc20_approval_run:
  "execute_swap (ex_world 0 20 ''0xa1'') ex_config ex_service ''1'' ex_token ex_native
     ''1.5'' None ''0.03'' ''default'' Map.empty []
   = (Inr ''0xa1'', ex_erc20_approval_trace)"
  unfolding fun_defs io_except_reraise Let_def
  by (simp add: io_defs ex_defs ex_defs2 py_defs)

lemma ex_native_run:
  "execute_swap (ex_world 0 20 ''0xa1'') ex_config ex_service ''1'' ex_native ex_token
     ''1.5'' None ''0.03'' ''default'' ex_kwargs []
   = (Inr ''0xa1'', ex_native_trace)"
  unfolding fun_defs io_except_reraise Let_def
  by (simp add: io_defs ex_defs ex_defs2 py_defs)

lemma ex_failing_run:
  "execute_swap ex_failing_world ex_config ex_service ''1'' ex_native ex_token
     ''1.5'' None ''0.03'' ''default'' ex_kwargs []
   = (Inl (Raised ''HTTP 500''), ex_failing_trace)"
  unfolding fun_defs io_except_reraise Let_def
  by (simp add: io_defs ex_defs ex_defs2 py_defs)

lemma ex_unsupported_run:
  "execute_swap (ex_world 0 20 ''0xa1'') ex_config ex_service ''56'' ex_native ex_token
     ''1.5'' None ''0.03'' ''default'' Map.empty []
   = (Inl (ValueError ''Unsupported chain ID: 56''), [Event 132 (GetInstance ''56'') None])"
  unfolding fun_defs io_except_reraise Let_def
  by (simp add: io_defs ex_defs ex_defs2 py_defs)

section \<open>Consequences of the call sites\<close>

lemma subseq_count_list: "subseq xs ys \<Longrightarrow> count_list xs s \<le> count_list ys s"
  by (induction rule: list_emb.induct) auto

lemma subseq_distinct: "subseq xs ys \<Longrightarrow> distinct ys \<Longrightarrow> distinct xs"
proof (induction rule: list_emb.induct)
  case (list_emb_Cons2 x y xs ys)
  then have "set xs \<subseteq> set ys" by (auto dest: list_emb_set)
  with list_emb_Cons2 show ?case by auto
qed auto

lemma ends_well_raised:
  assumes "ends_well r new" and "ev \<in> set new" and "raised ev = Some e"
  shows "r = Inl e \<and> ev = last new \<and> clean (butlast new)"
proof -
  from assms(2,3) have "\<not> clean new" by (auto simp: clean_def)
  with assms(1) obtain e' pre ev' where r: "r = Inl e'" and
    new: "new = pre @ [ev']" "clean pre" "raised ev' = Some e'"
    by (auto simp: ends_well_def split: sum.splits)
  from assms(2,3) new have "ev = ev'" by (auto simp: clean_def)
  with assms(3) new r show ?thesis by simp
qed

lemma execute_swap_returns:
  assumes "execute_swap w cfg self chain_id from_token to_token amount recipient_address
             slippage wallet_name kwargs tr = (Inr tx_hash, tr')"
  shows "\<exists>pre helper tx key. tr' = pre @ [Event 178 (SendTransaction tx key) None] \<and>
           send_transaction w pre helper tx key = Inr tx_hash"
  using assms
  unfolding execute_swap_def io_except_reraise Let_def
  by (auto simp: io_defs split: sum.splits if_splits prod.splits)

section \<open>The approval transaction\<close>

text \<open>
  Claim C10. Every transaction \<open>check_and_approve\<close> hands to \<open>send_transaction\<close> (it
  does so on line 55 only) has the value 0, is addressed to the token contract, not to
  the spender the aggregator named, and carries as calldata the \<open>data\<close> field of the
  first entry of the aggregator's approval response, unchanged.
\<close>

theorem approval_transaction_fields:
  assumes "check_and_approve w self chain_id token_address owner_address amount tr = (r, tr')"
  shows "\<exists>new. tr' = tr @ new \<and>
     (\<forall>ev \<in> set new. \<forall>tx key. call ev = SendTransaction tx key \<longrightarrow>
        site ev = 55 \<and> tx_value tx = 0 \<and> tx_to tx = JStr token_address \<and>
        (\<exists>approve_data entry.
           get_approve_transaction w (tr @ [Event 19 (GetInstance chain_id) None])
             [''chainId'' \<mapsto> JStr chain_id,
              ''tokenContractAddress'' \<mapsto> JStr token_address,
              ''approveAmount'' \<mapsto> JStr amount] = Inr approve_data \<and>
           py_bind (py_getitem approve_data ''data'') py_getitem_0 = Inr entry \<and>
           py_getitem entry ''data'' = Inr (tx_data tx)))"
  using assms
  unfolding check_and_approve_def io_except_reraise Let_def
  by (auto simp: io_defs split: sum.splits if_splits)

theorem approval_transaction_fields_witness:
  "check_and_approve (ex_world 0 20 ''0xa1'') ex_service ''1'' ex_token ''0xowner'' ''1500000'' []
     = (Inr (Some ''0xa1''), ex_approval_trace) \<and>
   Event 55 (SendTransaction ex_approval_tx ''secret'') None \<in> set ex_approval_trace \<and>
   tx_value ex_approval_tx = 0 \<and> tx_to ex_approval_tx = JStr ex_token \<and>
   py_bind (py_bind (py_getitem ex_approve_response ''data'') py_getitem_0)
     (\<lambda>entry. py_getitem entry ''data'') = Inr (tx_data ex_approval_tx)"
proof -
  let ?ev = "Event 55 (SendTransaction ex_approval_tx ''secret'') None"
  from approval_transaction_fields[OF ex_approval_run]
  obtain new where new: "ex_approval_trace = [] @ new"
    and sent: "\<forall>ev \<in> set new. \<forall>tx key. call ev = SendTransaction tx key \<longrightarrow>
        site ev = 55 \<and> tx_value tx = 0 \<and> tx_to tx = JStr ex_token \<and>
        (\<exists>approve_data entry.
           get_approve_transaction (ex_world 0 20 ''0xa1'') ([] @ [Event 19 (GetInstance ''1'') None])
             [''chainId'' \<mapsto> JStr ''1'',
              ''tokenContractAddress'' \<mapsto> JStr ex_token,
              ''approveAmount'' \<mapsto> JStr ''1500000''] = Inr approve_data \<and>
           py_bind (py_getitem approve_data ''data'') py_getitem_0 = Inr entry \<and>
           py_getitem entry ''data'' = Inr (tx_data tx))"
    by blast
  have new': "new = ex_approval_trace"
    using new by simp
  have mem: "?ev \<in> set new"
    unfolding new' by (simp add: ex_approval_trace_def)
  from sent mem have "tx_value ex_approval_tx = 0 \<and> tx_to ex_approval_tx = JStr ex_token \<and>
        (\<exists>approve_data entry.
           get_approve_transaction (ex_world 0 20 ''0xa1'') ([] @ [Event 19 (GetInstance ''1'') None])
             [''chainId'' \<mapsto> JStr ''1'',
              ''tokenContractAddress'' \<mapsto> JStr ex_token,
              ''approveAmount'' \<mapsto> JStr ''1500000''] = Inr approve_data \<and>
           py_bind (py_getitem approve_data ''data'') py_getitem_0 = Inr entry \<and>
           py_getitem entry ''data'' = Inr (tx_data ex_approval_tx))"
    by fastforce
  then show ?thesis
    using ex_approval_run mem new' by (auto simp: ex_world_def py_bind_def)
qed

section \<open>Approval only if needed\<close>

text \<open>
  Claim C3. When \<open>check_and_approve\<close> returns, the allowance was queried for the spender
  the aggregator named, and the result is \<open>None\<close> exactly when that allowance is at
  least \<open>int(amount)\<close>; then nothing was sent. When the allowance is smaller, the
  result is the hash \<open>send_transaction\<close> returned for the approval transaction, the
  last call made.
\<close>

theorem check_and_approve_result:
  assumes "check_and_approve w self chain_id token_address owner_address amount tr = (Inr res, tr')"
  shows "\<exists>helper approve_data spender allowance required.
     get_instance w tr chain_id = Inr helper \<and>
     get_approve_transaction w (tr @ [Event 19 (GetInstance chain_id) None])
             [''chainId'' \<mapsto> JStr chain_id,
              ''tokenContractAddress'' \<mapsto> JStr token_address,
              ''approveAmount'' \<mapsto> JStr amount] = Inr approve_data \<and>
     py_bind (py_bind (py_getitem approve_data ''data'') py_getitem_0)
        (\<lambda>d. py_getitem d ''spenderAddress'') = Inr spender \<and>
     get_allowance w (tr @ [Event 19 (GetInstance chain_id) None,
          Event 22 (GetApproveTransaction [''chainId'' \<mapsto> JStr chain_id,
              ''tokenContractAddress'' \<mapsto> JStr token_address,
              ''approveAmount'' \<mapsto> JStr amount]) None])
        helper token_address owner_address spender = Inr allowance \<and>
     py_int_str amount = Inr required \<and>
     (res = None) = (required \<le> allowance) \<and>
     (required \<le> allowance \<longrightarrow> (\<forall>ev \<in> set (drop (length tr) tr'). site ev \<noteq> 55)) \<and>
     (allowance < required \<longrightarrow>
        (\<exists>pre tx key tx_hash. tr' = pre @ [Event 55 (SendTransaction tx key) None] \<and>
            send_transaction w pre helper tx key = Inr tx_hash \<and> res = Some tx_hash))"
  using assms
  unfolding check_and_approve_def io_except_reraise Let_def
  by (auto simp: io_defs split: sum.splits if_splits)

theorem check_and_approve_result_witness:
  "check_and_approve (ex_world 0 20 ''0xa1'') ex_service ''1'' ex_token ''0xowner'' ''1500000'' []
     = (Inr (Some ''0xa1''), ex_approval_trace) \<and>
   py_int_str ''1500000'' = Inr 1500000 \<and>
   (\<exists>allowance::int. allowance < 1500000 \<and> (Some ''0xa1'' = None) = (1500000 \<le> allowance) \<and>
      (\<exists>pre tx key. ex_approval_trace = pre @ [Event 55 (SendTransaction tx key) None] \<and>
          send_transaction (ex_world 0 20 ''0xa1'') pre \<lparr>helper_chain_id = ''1''\<rparr> tx key
            = Inr ''0xa1''))"
proof -
  have amount: "py_int_str ''1500000'' = Inr 1500000"
    by (simp add: py_defs)
  from check_and_approve_result[OF ex_approval_run]
  obtain helper approve_data spender allowance required where
    h: "get_instance (ex_world 0 20 ''0xa1'') [] ''1'' = Inr helper" and
    a: "get_allowance (ex_world 0 20 ''0xa1'') ([] @ [Event 19 (GetInstance ''1'') None,
          Event 22 (GetApproveTransaction [''chainId'' \<mapsto> JStr ''1'',
              ''tokenContractAddress'' \<mapsto> JStr ex_token,
              ''approveAmount'' \<mapsto> JStr ''1500000'']) None])
        helper ex_token ''0xowner'' spender = Inr allowance" and
    r: "py_int_str ''1500000'' = Inr required" and
    none: "(Some ''0xa1'' = None) = (required \<le> allowance)" and
    sent: "allowance < required \<longrightarrow>
        (\<exists>pre tx key tx_hash. ex_approval_trace = pre @ [Event 55 (SendTransaction tx key) None] \<and>
            send_transaction (ex_world 0 20 ''0xa1'') pre helper tx key = Inr tx_hash \<and>
            Some ''0xa1'' = Some tx_hash)"
    by blast
  from r amount have required: "required = 1500000" by simp
  from a have allowance: "allowance = 0" by (simp add: ex_world_def)
  from h have helper: "helper = \<lparr>helper_chain_id = ''1''\<rparr>" by (simp add: ex_world_def)
  from sent none show ?thesis
    unfolding required allowance helper using ex_approval_run amount
    by (intro conjI exI[of _ 0]) auto
qed

section \<open>Amount conversion\<close>


lemma ex_amount_run:
  "get_amount_in_wei (ex_world 0 20 ''0xa1'') ex_config ex_helper ex_native ''1.5'' []
     = (Inr ''1500000'', [Event 86 (ParseTokenAmount ''1.5'' 18) None])"
  unfolding get_amount_in_wei_def io_except_reraise Let_def
  by (simp add: io_defs ex_defs ex_defs2 py_defs)

text \<open>
  Claim C6. \<open>_get_amount_in_wei\<close> compares the lowered token address with the native
  token address. For the native token it never queries the token contract, and raises
  \<open>ValueError\<close> without calling anything when the helper's chain id is not a key of
  \<open>NATIVE_TOKENS\<close>; for any other token its first call is \<open>get_token_decimals\<close> on
  that token. Whenever it returns, the result is \<open>str\<close> of what
  \<open>parse_token_amount(amount, decimals)\<close> returned, with the decimals of the
  configuration for the native token and those of the token contract otherwise.
\<close>

theorem get_amount_in_wei_spec:
  assumes "get_amount_in_wei w cfg helper token_address amount tr = (r, tr')"
  shows "\<exists>new. tr' = tr @ new \<and>
    (is_native token_address \<longrightarrow>
       (\<forall>ev \<in> set new. site ev \<noteq> 84) \<and>
       (helper_chain_id helper \<notin> dom (NATIVE_TOKENS cfg) \<longrightarrow>
          r = Inl (ValueError (''Unsupported chain ID: '' @ helper_chain_id helper)) \<and> new = [])) \<and>
    (\<not> is_native token_address \<longrightarrow>
       (\<exists>oc. take 1 new = [Event 84 (GetTokenDecimals token_address) oc])) \<and>
    (\<forall>s. r = Inr s \<longrightarrow>
       (\<exists>decimals parsed pre.
          tr' = pre @ [Event 86 (ParseTokenAmount amount decimals) None] \<and>
          parse_token_amount w pre helper amount decimals = Inr parsed \<and>
          s = py_str_int parsed \<and>
          (if is_native token_address
           then \<exists>entry. NATIVE_TOKENS cfg (helper_chain_id helper) = Some entry \<and>
                  entry ''decimals'' = Some decimals
           else get_token_decimals w tr helper token_address = Inr decimals)))"
  using assms
  unfolding get_amount_in_wei_def io_except_reraise Let_def is_native_def
  by (auto simp: io_defs py_bind_def py_dict_getitem_def split: sum.splits if_splits option.splits)

theorem get_amount_in_wei_spec_witness:
  "get_amount_in_wei (ex_world 0 20 ''0xa1'') ex_config ex_helper ex_native ''1.5'' []
     = (Inr ''1500000'', [Event 86 (ParseTokenAmount ''1.5'' 18) None]) \<and>
   is_native ex_native \<and>
   (\<exists>decimals parsed.
      NATIVE_TOKENS ex_config ''1'' = Some [''decimals'' \<mapsto> decimals] \<and>
      parse_token_amount (ex_world 0 20 ''0xa1'') [] ex_helper ''1.5'' decimals = Inr parsed \<and>
      ''1500000'' = py_str_int parsed)"
proof -
  have native: "is_native ex_native"
    by (simp add: is_native_def ex_native_def py_defs)
  from get_amount_in_wei_spec[OF ex_amount_run] native
  obtain decimals parsed pre entry where
    tr: "[Event 86 (ParseTokenAmount ''1.5'' 18) None]
           = pre @ [Event 86 (ParseTokenAmount ''1.5'' decimals) None]" and
    p: "parse_token_amount (ex_world 0 20 ''0xa1'') pre ex_helper ''1.5'' decimals = Inr parsed" and
    s: "''1500000'' = py_str_int parsed" and
    e: "NATIVE_TOKENS ex_config (helper_chain_id ex_helper) = Some entry"
       "entry ''decimals'' = Some decimals"
    by (auto split: if_splits)
  from tr have pre: "pre = []" and d: "decimals = 18" by simp_all
  from e have "NATIVE_TOKENS ex_config ''1'' = Some [''decimals'' \<mapsto> decimals]"
    unfolding d by (auto simp: ex_config_def ex_helper_def)
  with p s native ex_amount_run show ?thesis
    unfolding pre by blast
qed

section \<open>The swap request\<close>

lemma ex_swap_request_run:
  "create_swap_transaction (ex_world 0 20 ''0xa1'') ex_config ''1'' ex_native ex_token ''1.5''
      ''0xowner'' None ''0.03'' ex_kwargs []
   = (Inr ex_swap_response,
      [Event 96 (GetInstance ''1'') None,
       Event 86 (ParseTokenAmount ''1.5'' 18) None,
       Event 115 (GetSwap ex_swap_params) None])"
  unfolding create_swap_transaction_def get_amount_in_wei_def io_except_reraise Let_def
  by (simp add: io_defs ex_defs ex_defs2 py_defs)

lemma ex_recipient_run:
  "create_swap_transaction (ex_world 0 20 ''0xa1'') ex_config ''1'' ex_native ex_token ''1.5''
      ''0xowner'' (Some ''0xfriend'') ''0.03'' Map.empty []
   = (Inr ex_swap_response,
      [Event 96 (GetInstance ''1'') None,
       Event 86 (ParseTokenAmount ''1.5'' 18) None,
       Event 115 (GetSwap ex_recipient_params) None])"
  unfolding create_swap_transaction_def get_amount_in_wei_def io_except_reraise Let_def
  by (simp add: io_defs ex_defs ex_defs2 py_defs)

text \<open>
  Claim C9, as stated, fails: with no recipient and the extra keyword argument
  \<open>swapReceiverAddress\<close>, the request sent to the aggregator does contain the key.
\<close>

theorem swap_receiver_from_kwargs_counterexample:
  "\<not> truthy None \<and>
   create_swap_transaction (ex_world 0 20 ''0xa1'') ex_config ''1'' ex_native ex_token ''1.5''
      ''0xowner'' None ''0.03'' ex_kwargs []
   = (Inr ex_swap_response,
      [Event 96 (GetInstance ''1'') None,
       Event 86 (ParseTokenAmount ''1.5'' 18) None,
       Event 115 (GetSwap ex_swap_params) None]) \<and>
   ex_swap_params ''swapReceiverAddress'' = Some (JStr ''0xthird'')"
  using ex_swap_request_run by (simp add: truthy_def ex_swap_params_def ex_kwargs_def)

text \<open>
  Claim C9, amended. The request sent to the aggregator contains the key
  \<open>swapReceiverAddress\<close> exactly when \<open>recipient_address\<close> is a non-empty string or the
  caller passed the key among the extra keyword arguments. With a non-empty
  \<open>recipient_address\<close> its value is \<open>recipient_address\<close>; otherwise the request holds
  whatever the extra keyword arguments hold for the key, nothing when they do not
  name it.
\<close>

theorem swap_receiver_address:
  assumes "create_swap_transaction w cfg chain_id from_token to_token amount user_address
             recipient_address slippage kwargs tr = (r, tr')"
  shows "\<exists>new. tr' = tr @ new \<and>
    (\<forall>ev \<in> set new. \<forall>params. call ev = GetSwap params \<longrightarrow>
       (''swapReceiverAddress'' \<in> dom params) =
          (truthy recipient_address \<or> ''swapReceiverAddress'' \<in> dom kwargs) \<and>
       (truthy recipient_address \<longrightarrow>
          params ''swapReceiverAddress'' = Some (JStr (the recipient_address))) \<and>
       (\<not> truthy recipient_address \<longrightarrow>
          params ''swapReceiverAddress'' = kwargs ''swapReceiverAddress''))"
  using assms
  unfolding create_swap_transaction_def get_amount_in_wei_def io_except_reraise Let_def
  by (auto simp: io_defs map_add_def dom_def split: sum.splits if_splits option.splits)

theorem swap_receiver_address_witness:
  "create_swap_transaction (ex_world 0 20 ''0xa1'') ex_config ''1'' ex_native ex_token ''1.5''
      ''0xowner'' (Some ''0xfriend'') ''0.03'' Map.empty []
   = (Inr ex_swap_response,
      [Event 96 (GetInstance ''1'') None,
       Event 86 (ParseTokenAmount ''1.5'' 18) None,
       Event 115 (GetSwap ex_recipient_params) None]) \<and>
   truthy (Some ''0xfriend'') \<and>
   ''swapReceiverAddress'' \<in> dom ex_recipient_params \<and>
   ex_recipient_params ''swapReceiverAddress'' = Some (JStr ''0xfriend'')"
proof -
  let ?ev = "Event 115 (GetSwap ex_recipient_params) None"
  have t: "truthy (Some ''0xfriend'')"
    by (simp add: truthy_def)
  from swap_receiver_address[OF ex_recipient_run]
  obtain new where
    new: "[Event 96 (GetInstance ''1'') None, Event 86 (ParseTokenAmount ''1.5'' 18) None, ?ev]
            = [] @ new" and
    req: "\<forall>ev \<in> set new. \<forall>params. call ev = GetSwap params \<longrightarrow>
       (''swapReceiverAddress'' \<in> dom params) =
          (truthy (Some ''0xfriend'') \<or> ''swapReceiverAddress'' \<in> dom (Map.empty :: string \<rightharpoonup> json)) \<and>
       (truthy (Some ''0xfriend'') \<longrightarrow>
          params ''swapReceiverAddress'' = Some (JStr (the (Some ''0xfriend'')))) \<and>
       (\<not> truthy (Some ''0xfriend'') \<longrightarrow>
          params ''swapReceiverAddress'' = (Map.empty :: string \<rightharpoonup> json) ''swapReceiverAddress'')"
    by blast
  from new have "?ev \<in> set new" by auto
  with req have "(''swapReceiverAddress'' \<in> dom ex_recipient_params) =
          (truthy (Some ''0xfriend'') \<or> ''swapReceiverAddress'' \<in> dom (Map.empty :: string \<rightharpoonup> json)) \<and>
       (truthy (Some ''0xfriend'') \<longrightarrow>
          ex_recipient_params ''swapReceiverAddress'' = Some (JStr (the (Some ''0xfriend''))))"
    by fastforce
  with t ex_recipient_run show ?thesis by simp
qed

section \<open>Error propagation\<close>

text \<open>
  Claim C1, as stated, fails in its second half: on a chain that is not in
  \<open>NATIVE_TOKENS\<close>, with the native token, the only collaborator call made succeeds
  and \<open>execute_swap\<close> raises the \<open>ValueError\<close> of line 81 instead of returning a hash.
\<close>

theorem execute_swap_local_error_counterexample:
  "execute_swap (ex_world 0 20 ''0xa1'') ex_config ex_service ''56'' ex_native ex_token
     ''1.5'' None ''0.03'' ''default'' Map.empty []
   = (Inl (ValueError ''Unsupported chain ID: 56''), [Event 132 (GetInstance ''56'') None])"
  by (rule ex_unsupported_run)

text \<open>
  Claim C1, amended. In every run of \<open>execute_swap\<close>, a collaborator call that raises
  is the last call made, no call before it raised, and its exception is what
  \<open>execute_swap\<close> raises, unchanged. When \<open>execute_swap\<close> returns, no call raised and
  the value is the hash \<open>send_transaction\<close> returned on line 178 for the swap
  transaction, the last call made. (An exception of a local step, such as the
  \<open>ValueError\<close> above, a missing key or a field that is not an integer, reaches the
  caller in the same way.)
\<close>

theorem execute_swap_error_propagation:
  assumes "execute_swap w cfg self chain_id from_token to_token amount recipient_address
             slippage wallet_name kwargs tr = (r, tr')"
  shows "\<exists>new. tr' = tr @ new \<and>
     (\<forall>ev \<in> set new. \<forall>e. raised ev = Some e \<longrightarrow>
        r = Inl e \<and> ev = last new \<and> clean (butlast new)) \<and>
     (\<forall>tx_hash. r = Inr tx_hash \<longrightarrow>
        clean new \<and>
        (\<exists>pre helper tx key. tr' = pre @ [Event 178 (SendTransaction tx key) None] \<and>
           send_transaction w pre helper tx key = Inr tx_hash))"
proof -
  from execute_swap_within[of w cfg self chain_id from_token to_token amount
      recipient_address slippage wallet_name kwargs] assms
  obtain new where new: "tr' = tr @ new" and well: "ends_well r new"
    unfolding runs_within_def by blast
  have "r = Inl e \<and> ev = last new \<and> clean (butlast new)"
    if "ev \<in> set new" and "raised ev = Some e" for ev e
    using well that by (rule ends_well_raised)
  moreover have "clean new \<and>
        (\<exists>pre helper tx key. tr' = pre @ [Event 178 (SendTransaction tx key) None] \<and>
           send_transaction w pre helper tx key = Inr tx_hash)"
    if "r = Inr tx_hash" for tx_hash
    using well assms execute_swap_returns[of w cfg self chain_id from_token to_token amount
      recipient_address slippage wallet_name kwargs tr tx_hash tr'] that
    by (simp add: ends_well_def)
  ultimately show ?thesis using new by blast
qed

theorem execute_swap_error_propagation_witness:
  "execute_swap ex_failing_world ex_config ex_service ''1'' ex_native ex_token
     ''1.5'' None ''0.03'' ''default'' ex_kwargs []
   = (Inl (Raised ''HTTP 500''), ex_failing_trace) \<and>
   Event 115 (GetSwap ex_swap_params) (Some (Raised ''HTTP 500'')) = last ex_failing_trace \<and>
   clean (butlast ex_failing_trace)"
proof -
  let ?ev = "Event 115 (GetSwap ex_swap_params) (Some (Raised ''HTTP 500''))"
  from execute_swap_error_propagation[OF ex_failing_run]
  obtain new where new: "ex_failing_trace = [] @ new" and
    raised: "\<forall>ev \<in> set new. \<forall>e. raised ev = Some e \<longrightarrow>
        (Inl (Raised ''HTTP 500'') :: py_exn + string) = Inl e \<and> ev = last new \<and>
        clean (butlast new)"
    by blast
  from new have eq: "new = ex_failing_trace" by simp
  have "?ev \<in> set new" unfolding eq by (simp add: ex_failing_trace_def)
  moreover have "raised ?ev = Some (Raised ''HTTP 500'')" by simp
  ultimately have "?ev = last new \<and> clean (butlast new)"
    using raised by blast
  then show ?thesis using ex_failing_run unfolding eq by simp
qed

section \<open>No retries\<close>

text \<open>
  Claim C7, as stated, fails for \<open>execute_swap\<close>: with an ERC20 token the call of
  \<open>get_token_decimals\<close> on line 84 is executed twice in one invocation, once for the
  conversion \<open>execute_swap\<close> does itself and once inside \<open>create_swap_transaction\<close>.
\<close>

theorem decimals_queried_twice_counterexample:
  "execute_swap (ex_world 2000000 20 ''0xa1'') ex_config ex_service ''1'' ex_token ex_native
     ''1.5'' None ''0.03'' ''default'' Map.empty []
   = (Inr ''0xa1'', ex_erc20_trace) \<and>
   count_list (map site ex_erc20_trace) 84 = 2"
  using ex_erc20_run by (simp add: ex_defs2 ex_token_def py_defs)

text \<open>
  Claim C7, amended. In every invocation of \<open>check_and_approve\<close> and of
  \<open>create_swap_transaction\<close> each call site is executed at most once. In every
  invocation of \<open>execute_swap\<close> each call site is executed at most once, except the two
  of the amount conversion (lines 84 and 86), which are executed at most twice: the
  second execution is unconditional, not a retry. In all three, a call that raised is
  the last call made: nothing is called after a failure.
\<close>

theorem no_retries:
  "(\<forall>tr r tr'. check_and_approve w self chain_id token_address owner_address raw_amount tr
        = (r, tr') \<longrightarrow>
      (\<exists>new. tr' = tr @ new \<and> ends_well r new \<and> distinct (map site new))) \<and>
   (\<forall>tr r tr'. create_swap_transaction w cfg chain_id from_token to_token amount user_address
        recipient_address slippage kwargs tr = (r, tr') \<longrightarrow>
      (\<exists>new. tr' = tr @ new \<and> ends_well r new \<and> distinct (map site new))) \<and>
   (\<forall>tr r tr'. execute_swap w cfg self chain_id from_token to_token amount recipient_address
        slippage wallet_name kwargs tr = (r, tr') \<longrightarrow>
      (\<exists>new. tr' = tr @ new \<and> ends_well r new \<and>
         (\<forall>s. count_list (map site new) s \<le> (if s = 84 \<or> s = 86 then 2 else 1))))"
proof (intro conjI allI impI)
  fix tr r tr'
  assume "check_and_approve w self chain_id token_address owner_address raw_amount tr = (r, tr')"
  with check_and_approve_within[of w self chain_id token_address owner_address raw_amount]
  obtain new where "tr' = tr @ new" "ends_well r new"
    "subseq (map site new) [19, 22, 31, 42, 43, 55]"
    unfolding runs_within_def by blast
  moreover from this(3) have "distinct (map site new)"
    by (rule subseq_distinct) simp
  ultimately show "\<exists>new. tr' = tr @ new \<and> ends_well r new \<and> distinct (map site new)"
    by blast
next
  fix tr r tr'
  assume "create_swap_transaction w cfg chain_id from_token to_token amount user_address
        recipient_address slippage kwargs tr = (r, tr')"
  with create_swap_transaction_within[of w cfg chain_id from_token to_token amount
      user_address recipient_address slippage kwargs]
  obtain new where "tr' = tr @ new" "ends_well r new"
    "subseq (map site new) [96, 84, 86, 115]"
    unfolding runs_within_def by blast
  moreover from this(3) have "distinct (map site new)"
    by (rule subseq_distinct) simp
  ultimately show "\<exists>new. tr' = tr @ new \<and> ends_well r new \<and> distinct (map site new)"
    by blast
next
  fix tr r tr'
  assume "execute_swap w cfg self chain_id from_token to_token amount recipient_address
        slippage wallet_name kwargs tr = (r, tr')"
  with execute_swap_within[of w cfg self chain_id from_token to_token amount
      recipient_address slippage wallet_name kwargs]
  obtain new where new: "tr' = tr @ new" "ends_well r new"
    "subseq (map site new)
       [132, 84, 86, 19, 22, 31, 42, 43, 55, 147, 96, 84, 86, 115, 165, 178]"
    unfolding runs_within_def by blast
  have "count_list (map site new) s \<le> (if s = 84 \<or> s = 86 then 2 else 1)" for s
  proof -
    have "count_list (map site new) s
        \<le> count_list [132, 84, 86, 19, 22, 31, 42, 43, 55, 147, 96, 84, 86, 115, 165, 178] s"
      using new(3) by (rule subseq_count_list)
    also have "\<dots> \<le> (if s = 84 \<or> s = 86 then 2 else 1)"
      by simp
    finally show ?thesis .
  qed
  with new show "\<exists>new. tr' = tr @ new \<and> ends_well r new \<and>
         (\<forall>s. count_list (map site new) s \<le> (if s = 84 \<or> s = 86 then 2 else 1))"
    by blast
qed

theorem no_retries_witness:
  "check_and_approve (ex_world 0 20 ''0xa1'') ex_service ''1'' ex_token ''0xowner'' ''1500000'' []
     = (Inr (Some ''0xa1''), ex_approval_trace) \<and>
   distinct (map site ex_approval_trace) \<and>
   execute_swap ex_failing_world ex_config ex_service ''1'' ex_native ex_token
     ''1.5'' None ''0.03'' ''default'' ex_kwargs []
   = (Inl (Raised ''HTTP 500''), ex_failing_trace) \<and>
   ends_well (Inl (Raised ''HTTP 500'') :: py_exn + string) ex_failing_trace \<and>
   count_list (map site ex_failing_trace) 86 \<le> 2"
proof -
  note first = no_retries[where w = "ex_world 0 20 ''0xa1''" and self = ex_service
      and chain_id = "''1''" and token_address = ex_token and owner_address = "''0xowner''"
      and raw_amount = "''1500000''", THEN conjunct1, rule_format]
  note third = no_retries[where w = ex_failing_world and cfg = ex_config and self = ex_service
      and chain_id = "''1''" and from_token = ex_native and to_token = ex_token
      and amount = "''1.5''" and recipient_address = None and slippage = "''0.03''"
      and wallet_name = "''default''" and kwargs = ex_kwargs,
      THEN conjunct2, THEN conjunct2, rule_format]
  from first[OF ex_approval_run] obtain new1 where
    "ex_approval_trace = [] @ new1" "distinct (map site new1)"
    by blast
  then have one: "distinct (map site ex_approval_trace)" by simp
  from third[OF ex_failing_run] obtain new2 where
    n2: "ex_failing_trace = [] @ new2" and
    w2: "ends_well (Inl (Raised ''HTTP 500'') :: py_exn + string) new2" and
    c2: "\<forall>s. count_list (map site new2) s \<le> (if s = 84 \<or> s = 86 then 2 else 1)"
    by blast
  from c2 have "count_list (map site new2) 86
      \<le> (if (86::nat) = 84 \<or> (86::nat) = 86 then 2 else 1)"
    by (rule spec)
  then have c86: "count_list (map site new2) 86 \<le> 2"
    by simp
  from n2 have e2: "new2 = ex_failing_trace"
    by simp
  show ?thesis
    using one w2 c86 ex_approval_run ex_failing_run unfolding e2 by simp
qed

end
